theory Spec2Isabelle
  imports Complex_Main "HOL-Library.Log_Nat"
begin

section \<open>JavaScript values that cross the worker boundary\<close>

text \<open>
  The worker script (the second document of \<^verbatim>\<open>src/docs/pkg/chess.d.ts\<close>, lines 67-128)
  receives messages by structured clone and answers with \<^verbatim>\<open>postMessage\<close>. A message, and
  each of its parts, is any value that can be cloned: a primitive, an array, a plain
  object, or another kind of object. A number is a double: a finite one is given by its
  exact value (every finite double is a rational; the sign of zero is not kept), the
  others are NaN and the two infinities. A bigint is an unbounded integer. A string is the
  list of its code units, each below 256. An array is the list of its elements (a hole
  reads as undefined); a plain object is the list of its own properties.

  \<open>JOther\<close> stands for any other object that structured clone delivers: a Map, a Set, a
  Date, a typed array, a wrapper such as \<^verbatim>\<open>new String('ab')\<close>, an array that carries named
  properties. A cloned value holds no function and no accessor, and the script does not
  touch the prototypes, so all the script can observe of such an object is data: the
  properties a read finds on it, the list of values that iterating it yields (\<open>None\<close> when
  it is not iterable), and the string it converts to (\<open>None\<close> when the conversion throws).
  Values are trees: a cyclic value is not in the model.
\<close>

datatype jsnumber = Finite rat | NaN | PosInfinity | NegInfinity

datatype jsval =
    JUndefined
  | JNull
  | JBoolean bool
  | JNumber jsnumber
  | JBigInt int
  | JString string
  | JArray "jsval list"
  | JObject "(string \<times> jsval) list"
  | JOther "(string \<times> jsval) list" "jsval list option" "string option"

text \<open>
  An abrupt completion: the builtin errors the script itself can raise, and any value the
  engine throws.
\<close>

datatype exn = TypeError | RangeError | SyntaxError | Thrown jsval

text \<open>
  \<^verbatim>\<open>Number(b)\<close> for a bigint \<open>b\<close> (line 103): the double nearest to \<open>b\<close>, ties to the even
  significand of 53 bits; a magnitude that rounds to \<open>2 ^ 1024\<close> or more is an infinity.
\<close>

definition Number :: "int \<Rightarrow> jsnumber" where
  "Number b =
     (let a = \<bar>b\<bar>; e = bitlen a - 53 in
      if e \<le> 0 then Finite (of_int b)
      else
        let q = a div 2 ^ nat e;
            r = a mod 2 ^ nat e;
            h = 2 ^ (nat e - 1);
            q' = (if h < r \<or> (r = h \<and> odd q) then q + 1 else q);
            v = q' * 2 ^ nat e
        in if 2 ^ 1024 \<le> v then (if b < 0 then NegInfinity else PosInfinity)
           else Finite (of_int (sgn b * v)))"

text \<open>
  \<^verbatim>\<open>BigInt(v)\<close> (line 114). A number converts when it is integral, and raises RangeError
  otherwise; undefined and null raise TypeError. A string goes through the language's
  parser of integer literals, and an object through its primitive value first; both are
  the parameter \<open>parse\<close>, which answers with the integer or with the error to raise.
\<close>

fun BigInt :: "(jsval \<Rightarrow> exn + int) \<Rightarrow> jsval \<Rightarrow> exn + int" where
  "BigInt parse (JNumber (Finite q)) =
     (if of_int \<lfloor>q\<rfloor> = q then Inr \<lfloor>q\<rfloor> else Inl RangeError)"
| "BigInt parse (JNumber NaN) = Inl RangeError"
| "BigInt parse (JNumber PosInfinity) = Inl RangeError"
| "BigInt parse (JNumber NegInfinity) = Inl RangeError"
| "BigInt parse (JBigInt n) = Inr n"
| "BigInt parse (JBoolean b) = Inr (if b then 1 else 0)"
| "BigInt parse JUndefined = Inl TypeError"
| "BigInt parse JNull = Inl TypeError"
| "BigInt parse (JString t) = parse (JString t)"
| "BigInt parse (JArray xs) = parse (JArray xs)"
| "BigInt parse (JObject kvs) = parse (JObject kvs)"
| "BigInt parse (JOther kvs it t) = parse (JOther kvs it t)"

text \<open>The decimal digits of a natural number: the name of an index, the text of a bigint.\<close>

function decimal :: "nat \<Rightarrow> string" where
  "decimal n =
     (if n < 10 then [''0123456789'' ! n]
      else decimal (n div 10) @ [''0123456789'' ! (n mod 10)])"
  by pat_completeness auto

termination
  by (relation "measure (\<lambda>n. n)") auto

declare decimal.simps [simp del]

text \<open>A property among those listed, undefined when there is none of that name.\<close>

definition own :: "(string \<times> jsval) list \<Rightarrow> string \<Rightarrow> jsval" where
  "own kvs k = (case map_of kvs k of None \<Rightarrow> JUndefined | Some v \<Rightarrow> v)"

text \<open>
  What reading the property \<open>k\<close> of a value finds, for the three names the script
  destructures (\<^verbatim>\<open>id\<close>, \<^verbatim>\<open>method\<close>, \<^verbatim>\<open>args\<close>, line 77). No prototype defines them, so a
  primitive and an array of elements only have none. On undefined and null the read
  throws: \<^verbatim>\<open>handle\<close> tests for them before any read.
\<close>

fun field :: "jsval \<Rightarrow> string \<Rightarrow> jsval" where
  "field (JObject kvs) k = own kvs k"
| "field (JOther kvs it t) k = own kvs k"
| "field v k = JUndefined"

text \<open>
  \<^verbatim>\<open>v[i]\<close> (line 114): TypeError on undefined and null; the element of an array and the
  one-unit string of a string, undefined past the end; the property named by the digits
  of \<open>i\<close> of an object; undefined on the other primitives.
\<close>

fun index :: "jsval \<Rightarrow> nat \<Rightarrow> exn + jsval" where
  "index JUndefined i = Inl TypeError"
| "index JNull i = Inl TypeError"
| "index (JArray xs) i = Inr (if i < length xs then xs ! i else JUndefined)"
| "index (JString t) i = Inr (if i < length t then JString [t ! i] else JUndefined)"
| "index (JObject kvs) i = Inr (own kvs (decimal i))"
| "index (JOther kvs it t) i = Inr (own kvs (decimal i))"
| "index v i = Inr JUndefined"

text \<open>
  \<^verbatim>\<open>...v\<close> in an argument list (lines 88, 94, 97, 106, 110): the values that iterating
  \<open>v\<close> yields. An array yields its elements and a string its one-unit strings; a value
  that is not iterable (undefined, null, a boolean, a number, a bigint, a plain object)
  raises TypeError.
\<close>

fun spread :: "jsval \<Rightarrow> exn + jsval list" where
  "spread (JArray xs) = Inr xs"
| "spread (JString t) = Inr (map (\<lambda>c. JString [c]) t)"
| "spread (JOther kvs (Some xs) t) = Inr xs"
| "spread v = Inl TypeError"

text \<open>\<^verbatim>\<open>Array.prototype.join\<close> with its default separator, on the texts of the elements.\<close>

fun joined :: "string list \<Rightarrow> string" where
  "joined [] = []"
| "joined [t] = t"
| "joined (t # u # ts) = t @ '','' @ joined (u # ts)"

text \<open>
  The string that \<^verbatim>\<open>'unknown method: ' + v\<close> appends (line 118), \<open>None\<close> when the
  conversion throws TypeError. A primitive always converts; the digits of a number are
  the parameter \<open>nt\<close> (\<^verbatim>\<open>Number.prototype.toString\<close>). An array converts through \<^verbatim>\<open>join\<close>:
  the texts of its elements, empty for undefined and null, separated by commas. A plain
  object converts through the methods it inherits, \<^verbatim>\<open>valueOf\<close> (which answers the object
  itself) and then \<^verbatim>\<open>toString\<close>; an own property named \<^verbatim>\<open>toString\<close> hides the inherited
  method and, being cloned data, cannot be called: then no method yields a primitive and
  the conversion throws.
\<close>

fun string_form :: "(jsnumber \<Rightarrow> string) \<Rightarrow> jsval \<Rightarrow> string option" where
  "string_form nt JUndefined = Some ''undefined''"
| "string_form nt JNull = Some ''null''"
| "string_form nt (JBoolean b) = Some (if b then ''true'' else ''false'')"
| "string_form nt (JNumber x) = Some (nt x)"
| "string_form nt (JBigInt n) =
     Some (if n < 0 then CHR ''-'' # decimal (nat (- n)) else decimal (nat n))"
| "string_form nt (JString t) = Some t"
| "string_form nt (JArray xs) =
     map_option joined (those (map
       (\<lambda>v. if v = JUndefined \<or> v = JNull then Some [] else string_form nt v) xs))"
| "string_form nt (JObject kvs) =
     (if ''toString'' \<in> fst ` set kvs then None else Some ''[object Object]'')"
| "string_form nt (JOther kvs it t) = t"


section \<open>The engine binding\<close>

text \<open>
  What the script imports and does not define: the class \<^verbatim>\<open>Game\<close> of the binding (lines
  4-18), one field per member. An instance is an object identity (a \<open>nat\<close>); the state
  behind all instances is the engine's world \<open>'w\<close>. A member takes the instance, the
  argument list the caller passes, and the world; it returns or throws, and leaves a new
  world either way. The declared return types are kept: \<^verbatim>\<open>any\<close> is a \<open>jsval\<close>,
  \<^verbatim>\<open>bigint\<close> an \<open>int\<close>, \<^verbatim>\<open>void\<close> a \<open>unit\<close>. The last two fields are not the engine's:
  they are the parser of the builtin \<^verbatim>\<open>BigInt\<close> and the digits of a number as the
  language prints them.
\<close>

record 'w env =
  Game_free :: "nat \<Rightarrow> 'w \<Rightarrow> (exn + unit) \<times> 'w"
  Game_dispose :: "nat \<Rightarrow> 'w \<Rightarrow> (exn + unit) \<times> 'w"
  Game_get_board_state :: "nat \<Rightarrow> 'w \<Rightarrow> (exn + jsval) \<times> 'w"
  Game_get_eval_breakdown :: "nat \<Rightarrow> 'w \<Rightarrow> (exn + jsval) \<times> 'w"
  Game_get_hint :: "nat \<Rightarrow> jsval list \<Rightarrow> 'w \<Rightarrow> (exn + jsval) \<times> 'w"
  Game_get_last_evals :: "nat \<Rightarrow> 'w \<Rightarrow> (exn + int) \<times> 'w"
  Game_get_legal_moves_for_square :: "nat \<Rightarrow> jsval list \<Rightarrow> 'w \<Rightarrow> (exn + jsval) \<times> 'w"
  Game_make_ai_move :: "nat \<Rightarrow> 'w \<Rightarrow> (exn + jsval) \<times> 'w"
  Game_make_move :: "nat \<Rightarrow> jsval list \<Rightarrow> 'w \<Rightarrow> (exn + jsval) \<times> 'w"
  Game_constructor :: "nat \<Rightarrow> 'w \<Rightarrow> (exn + unit) \<times> 'w"
  Game_set_auto_deepen :: "nat \<Rightarrow> jsval list \<Rightarrow> 'w \<Rightarrow> (exn + unit) \<times> 'w"
  Game_set_depth :: "nat \<Rightarrow> jsval list \<Rightarrow> 'w \<Rightarrow> (exn + unit) \<times> 'w"
  Game_set_module :: "nat \<Rightarrow> jsval list \<Rightarrow> 'w \<Rightarrow> (exn + unit) \<times> 'w"
  parse_BigInt :: "jsval \<Rightarrow> exn + int"
  Number_toString :: "jsnumber \<Rightarrow> string"

section \<open>The worker\<close>

text \<open>
  The three parts \<^verbatim>\<open>const { id, method, args } = msg\<close> binds (line 77), each any value.
  The other part of the script, \<^verbatim>\<open>initialize\<close> (lines 71-74 and 126-128), posts the
  notice that the module is loaded and neither reads nor writes \<^verbatim>\<open>game\<close>; it is not part
  of the model.
\<close>

definition msg_id :: "jsval \<Rightarrow> jsval" where
  "msg_id msg = field msg ''id''"

definition msg_method :: "jsval \<Rightarrow> jsval" where
  "msg_method msg = field msg ''method''"

definition msg_args :: "jsval \<Rightarrow> jsval" where
  "msg_args msg = field msg ''args''"

text \<open>What \<^verbatim>\<open>handle\<close> passes to \<^verbatim>\<open>postMessage\<close>: \<^verbatim>\<open>{ id, result }\<close> or \<^verbatim>\<open>{ id, error }\<close>.\<close>

datatype post = Result_msg jsval jsval | Error_msg jsval string

text \<open>A call into the binding, as the worker makes it: \<^verbatim>\<open>new Game()\<close>, or a member by name.\<close>

datatype call = Construct nat | Invoke nat string "jsval list"

text \<open>
  The worker's state: the variable \<^verbatim>\<open>game\<close> (line 69, \<open>None\<close> is null), the number of
  objects constructed so far (the next object identity), the engine's world, and two
  logs, oldest entry first: the messages posted and the calls made into the binding.
\<close>

record 'w worker =
  game :: "nat option"
  allocated :: nat
  world :: 'w
  posted :: "post list"
  calls :: "call list"

definition initial :: "'w \<Rightarrow> 'w worker" where
  "initial w = \<lparr>game = None, allocated = 0, world = w, posted = [], calls = []\<rparr>"

text \<open>\<^verbatim>\<open>postMessage\<close>: the message joins the log. Every value is taken to be cloneable.\<close>

definition postMessage :: "post \<Rightarrow> 'w worker \<Rightarrow> 'w worker" where
  "postMessage m s = s\<lparr>posted := posted s @ [m]\<rparr>"

text \<open>\<^verbatim>\<open>new Game()\<close>: a fresh object, then the constructor, which may throw.\<close>

definition new_Game :: "'w env \<Rightarrow> 'w worker \<Rightarrow> (exn + nat) \<times> 'w worker" where
  "new_Game env s =
     (let g = allocated s;
          (r, w') = Game_constructor env g (world s);
          s' = s\<lparr>allocated := Suc g, world := w', calls := calls s @ [Construct g]\<rparr>
      in case r of Inl e \<Rightarrow> (Inl e, s') | Inr u \<Rightarrow> (Inr g, s'))"

text \<open>\<^verbatim>\<open>game = new Game()\<close>: the assignment happens only when the constructor returns.\<close>

fun assign_game :: "(exn + nat) \<times> 'w worker \<Rightarrow> (exn + unit) \<times> 'w worker" where
  "assign_game (Inl e, s) = (Inl e, s)"
| "assign_game (Inr g, s) = (Inr (), s\<lparr>game := Some g\<rparr>)"

text \<open>
  \<^verbatim>\<open>game.member\<close>: reading a member of null raises TypeError, before any argument is
  evaluated.
\<close>

definition on_game ::
  "'w worker \<Rightarrow> (nat \<Rightarrow> 'w worker \<Rightarrow> (exn + 'a) \<times> 'w worker) \<Rightarrow> (exn + 'a) \<times> 'w worker" where
  "on_game s k = (case game s of None \<Rightarrow> (Inl TypeError, s) | Some g \<Rightarrow> k g s)"

text \<open>The call itself: the member runs on the world, and the call is logged.\<close>

definition invoke ::
  "string \<Rightarrow> (nat \<Rightarrow> jsval list \<Rightarrow> 'w \<Rightarrow> (exn + 'a) \<times> 'w) \<Rightarrow> jsval list \<Rightarrow> nat \<Rightarrow> 'w worker
     \<Rightarrow> (exn + 'a) \<times> 'w worker" where
  "invoke name f xs g s =
     (let (r, w') = f g xs (world s)
      in (r, s\<lparr>world := w', calls := calls s @ [Invoke g name xs]\<rparr>))"

text \<open>
  \<^verbatim>\<open>(...args)\<close>: the argument list is what spreading \<^verbatim>\<open>args\<close> yields; when \<^verbatim>\<open>args\<close> is not
  iterable the TypeError is raised before the call.
\<close>

definition spreading ::
  "jsval \<Rightarrow> (jsval list \<Rightarrow> nat \<Rightarrow> 'w worker \<Rightarrow> (exn + 'a) \<times> 'w worker)
     \<Rightarrow> nat \<Rightarrow> 'w worker \<Rightarrow> (exn + 'a) \<times> 'w worker" where
  "spreading a k g s = (case spread a of Inl e \<Rightarrow> (Inl e, s) | Inr xs \<Rightarrow> k xs g s)"

text \<open>
  \<^verbatim>\<open>(args[0], BigInt(args[1]))\<close> (line 114), evaluated left to right: each read may raise
  TypeError, and the conversion may raise.
\<close>

definition auto_deepen_args ::
  "'w env \<Rightarrow> jsval \<Rightarrow> (jsval list \<Rightarrow> nat \<Rightarrow> 'w worker \<Rightarrow> (exn + 'a) \<times> 'w worker)
     \<Rightarrow> nat \<Rightarrow> 'w worker \<Rightarrow> (exn + 'a) \<times> 'w worker" where
  "auto_deepen_args env a k g s =
     (case index a 0 of
        Inl e \<Rightarrow> (Inl e, s)
      | Inr enabled \<Rightarrow>
          (case index a 1 of
             Inl e \<Rightarrow> (Inl e, s)
           | Inr v \<Rightarrow>
               (case BigInt (parse_BigInt env) v of
                  Inl e \<Rightarrow> (Inl e, s)
                | Inr n \<Rightarrow> k [enabled, JBigInt n] g s)))"

text \<open>\<^verbatim>\<open>result = f(...)\<close>: what a case stores in \<^verbatim>\<open>result\<close> when the call returns.\<close>

fun returning :: "('a \<Rightarrow> jsval) \<Rightarrow> (exn + 'a) \<times> 's \<Rightarrow> (exn + jsval) \<times> 's" where
  "returning f (Inl e, s) = (Inl e, s)"
| "returning f (Inr v, s) = (Inr (f v), s)"

text \<open>
  The tail of \<^verbatim>\<open>handle\<close> (line 121): reached only when the case ran to its \<^verbatim>\<open>break\<close>;
  an exception leaves \<^verbatim>\<open>handle\<close> before it.
\<close>

fun respond :: "jsval \<Rightarrow> (exn + jsval) \<times> 'w worker \<Rightarrow> (exn + unit) \<times> 'w worker" where
  "respond i (Inl e, s) = (Inl e, s)"
| "respond i (Inr result, s) = (Inr (), postMessage (Result_msg i result) s)"

text \<open>
  The \<^verbatim>\<open>default\<close> branch (lines 117-119): the concatenation converts the method to a
  string, which may throw; then the error message is posted and \<^verbatim>\<open>handle\<close> returns.
\<close>

definition unknown_method :: "'w env \<Rightarrow> jsval \<Rightarrow> jsval \<Rightarrow> 'w worker \<Rightarrow> (exn + unit) \<times> 'w worker" where
  "unknown_method env i m s =
     (case string_form (Number_toString env) m of
        None \<Rightarrow> (Inl TypeError, s)
      | Some t \<Rightarrow> (Inr (), postMessage (Error_msg i (''unknown method: '' @ t)) s))"

text \<open>The case labels of the switch (lines 80-113), in the source's order.\<close>

definition known_methods :: "string list" where
  "known_methods =
     [''new_game'', ''get_board_state'', ''make_move'', ''make_ai_move'', ''get_hint'',
      ''get_legal_moves_for_square'', ''get_eval_breakdown'', ''get_last_evals'',
      ''set_module'', ''set_depth'', ''set_auto_deepen'']"

text \<open>
  \<^verbatim>\<open>function handle(msg)\<close> (lines 76-122). The outcome is \<open>Inr ()\<close> when \<^verbatim>\<open>handle\<close> returns
  and \<open>Inl e\<close> when the exception \<open>e\<close> leaves it; there is no \<^verbatim>\<open>try\<close> in the function.
  Destructuring undefined or null throws (line 77). The switch compares with \<^verbatim>\<open>===\<close>: a
  method that is not a string equals no label.
\<close>

definition handle :: "'w env \<Rightarrow> jsval \<Rightarrow> 'w worker \<Rightarrow> (exn + unit) \<times> 'w worker" where
  "handle env msg s =
     (if msg = JUndefined \<or> msg = JNull then (Inl TypeError, s)
      else
      let i = msg_id msg; m = msg_method msg; args = msg_args msg in
      if m = JString ''new_game'' then
        respond i (returning (\<lambda>u. JNull) (assign_game (new_Game env s)))
      else if m = JString ''get_board_state'' then
        respond i (on_game s
          (invoke ''get_board_state'' (\<lambda>g xs. Game_get_board_state env g) []))
      else if m = JString ''make_move'' then
        respond i (on_game s
          (spreading args (invoke ''make_move'' (Game_make_move env))))
      else if m = JString ''make_ai_move'' then
        respond i (on_game s
          (invoke ''make_ai_move'' (\<lambda>g xs. Game_make_ai_move env g) []))
      else if m = JString ''get_hint'' then
        respond i (on_game s
          (spreading args (invoke ''get_hint'' (Game_get_hint env))))
      else if m = JString ''get_legal_moves_for_square'' then
        respond i (on_game s
          (spreading args
            (invoke ''get_legal_moves_for_square'' (Game_get_legal_moves_for_square env))))
      else if m = JString ''get_eval_breakdown'' then
        respond i (on_game s
          (invoke ''get_eval_breakdown'' (\<lambda>g xs. Game_get_eval_breakdown env g) []))
      else if m = JString ''get_last_evals'' then
        respond i (returning (\<lambda>n. JNumber (Number n)) (on_game s
          (invoke ''get_last_evals'' (\<lambda>g xs. Game_get_last_evals env g) [])))
      else if m = JString ''set_module'' then
        respond i (returning (\<lambda>u. JNull) (on_game s
          (spreading args (invoke ''set_module'' (Game_set_module env)))))
      else if m = JString ''set_depth'' then
        respond i (returning (\<lambda>u. JNull) (on_game s
          (spreading args (invoke ''set_depth'' (Game_set_depth env)))))
      else if m = JString ''set_auto_deepen'' then
        respond i (returning (\<lambda>u. JNull) (on_game s
          (auto_deepen_args env args
            (invoke ''set_auto_deepen'' (Game_set_auto_deepen env)))))
      else unknown_method env i m s)"

text \<open>
  \<^verbatim>\<open>onmessage = (e) => handle(e.data)\<close> (line 124), over the messages of a session in
  their order of arrival. An exception that leaves \<^verbatim>\<open>handle\<close> is reported to the worker's
  error handling and the worker goes on with the next message, in the state the failed
  call left.
\<close>

fun run :: "'w env \<Rightarrow> jsval list \<Rightarrow> 'w worker \<Rightarrow> 'w worker" where
  "run env [] s = s"
| "run env (m # ms) s = run env ms (snd (handle env m s))"

text \<open>
  The two members of the class that release an instance (lines 5-6), as they would appear
  in the log of calls.
\<close>

fun releases :: "call \<Rightarrow> bool" where
  "releases (Construct g) = False"
| "releases (Invoke g name xs) = (name = ''free'' \<or> name = ''Symbol.dispose'')"

text \<open>
  The anatomy of a case that calls a member \<open>m\<close> of \<open>game\<close>, up to its \<^verbatim>\<open>break\<close>: on a null
  \<open>game\<close> it raises TypeError and changes nothing; otherwise it keeps \<open>game\<close>, posts
  nothing, and either fails before the call or makes exactly that one call.
\<close>

definition member_call :: "string \<Rightarrow> 'w worker \<Rightarrow> (exn + 'a) \<times> 'w worker \<Rightarrow> bool" where
  "member_call m s r =
     (case game s of
        None \<Rightarrow> r = (Inl TypeError, s)
      | Some g \<Rightarrow>
          game (snd r) = Some g \<and> allocated (snd r) = allocated s \<and>
          posted (snd r) = posted s \<and>
          ((\<exists>e. r = (Inl e, s)) \<or> (\<exists>xs. calls (snd r) = calls s @ [Invoke g m xs])))"

text \<open>
  The state after a case called member \<open>m\<close> of instance \<open>g\<close> with arguments \<open>xs\<close>, the
  call returned leaving the world \<open>w'\<close>, and \<^verbatim>\<open>{ id: i, result }\<close> was posted.
\<close>

definition answered ::
  "'w worker \<Rightarrow> nat \<Rightarrow> string \<Rightarrow> jsval list \<Rightarrow> 'w \<Rightarrow> jsval \<Rightarrow> jsval \<Rightarrow> 'w worker" where
  "answered s g m xs w' i result =
     s\<lparr>world := w', posted := posted s @ [Result_msg i result],
       calls := calls s @ [Invoke g m xs]\<rparr>"

text \<open>The object \<open>game\<close> refers to has been constructed.\<close>

definition fresh :: "'w worker \<Rightarrow> bool" where
  "fresh s \<longleftrightarrow> (\<forall>g. game s = Some g \<longrightarrow> g < allocated s)"

subsection \<open>An engine to run the worker on\<close>

text \<open>
  A small stand-in for the binding, for concrete runs. Its world is one integer, the
  evaluation count it reports: the constructor sets it to 0, \<^verbatim>\<open>make_ai_move\<close> adds 20,
  and \<^verbatim>\<open>set_auto_deepen\<close> stores the threshold it is given there. It accepts one move,
  (6,4) to (4,4); any other move, and a hint at depth 0, is refused in the value it
  returns. No member throws. Its parser of integer literals reads the text \<^verbatim>\<open>7\<close> and
  refuses any other; it prints a number by the digits of its integral part.
  \<open>arg xs i\<close> is the member's \<open>i\<close>-th argument, undefined when fewer were passed.
\<close>

definition arg :: "jsval list \<Rightarrow> nat \<Rightarrow> jsval" where
  "arg xs i = (if i < length xs then xs ! i else JUndefined)"

definition sample_engine :: "int env" where
  "sample_engine =
     \<lparr>Game_free = (\<lambda>g w. (Inr (), w)),
      Game_dispose = (\<lambda>g w. (Inr (), w)),
      Game_get_board_state = (\<lambda>g w. (Inr (JString ''board''), w)),
      Game_get_eval_breakdown =
        (\<lambda>g w. (Inr (JObject [(''material'', JNumber (Finite 0))]), w)),
      Game_get_hint = (\<lambda>g xs w.
        if arg xs 0 = JNumber (Finite 0)
        then (Inr (JObject [(''error'', JString ''depth must be positive'')]), w)
        else (Inr JNull, w)),
      Game_get_last_evals = (\<lambda>g w. (Inr w, w)),
      Game_get_legal_moves_for_square = (\<lambda>g xs w. (Inr (JArray []), w)),
      Game_make_ai_move = (\<lambda>g w. (Inr (JString ''moved''), w + 20)),
      Game_make_move = (\<lambda>g xs w.
        if xs = [JNumber (Finite 6), JNumber (Finite 4), JNumber (Finite 4), JNumber (Finite 4)]
        then (Inr (JString ''moved''), w)
        else (Inr (JObject [(''error'', JString ''illegal move'')]), w)),
      Game_constructor = (\<lambda>g w. (Inr (), 0)),
      Game_set_auto_deepen =
        (\<lambda>g xs w. (Inr (), case arg xs 1 of JBigInt n \<Rightarrow> n | _ \<Rightarrow> w)),
      Game_set_depth = (\<lambda>g xs w. (Inr (), w)),
      Game_set_module = (\<lambda>g xs w. (Inr (), w)),
      parse_BigInt = (\<lambda>v. if v = JString ''7'' then Inr 7 else Inl SyntaxError),
      Number_toString = (\<lambda>x. case x of
          Finite q \<Rightarrow>
            if q < 0 then CHR ''-'' # decimal (nat \<lfloor>- q\<rfloor>) else decimal (nat \<lfloor>q\<rfloor>)
        | NaN \<Rightarrow> ''NaN''
        | PosInfinity \<Rightarrow> ''Infinity''
        | NegInfinity \<Rightarrow> ''-Infinity'')\<rparr>"


text \<open>The request \<^verbatim>\<open>{ id: i, method: m, args: xs }\<close> with an array of arguments.\<close>

definition request :: "nat \<Rightarrow> string \<Rightarrow> jsval list \<Rightarrow> jsval" where
  "request i m xs =
     JObject [(''id'', JNumber (Finite (of_nat i))), (''method'', JString m),
              (''args'', JArray xs)]"

text \<open>The worker after \<^verbatim>\<open>new_game\<close> as request 1 on the sample engine.\<close>

definition started :: "int worker" where
  "started =
     \<lparr>game = Some 0, allocated = 1, world = 0,
      posted = [Result_msg (JNumber (Finite 1)) JNull], calls = [Construct 0]\<rparr>"

section \<open>The declared surface of the binding\<close>

text \<open>
  The declarations of \<^verbatim>\<open>src/docs/pkg/chess.d.ts\<close> (lines 4-20, 56, 66) as data: a
  declaration has a name, its parameters in order, each with its type and whether it is
  optional, and its return type. A type the claims do not look into is kept by its
  source text.
\<close>

datatype ts_type =
  T_any | T_number | T_string | T_boolean | T_bigint | T_void | T_string_or_null | T_named string

record param =
  param_name :: string
  param_type :: ts_type
  optional :: bool

record decl =
  decl_name :: string
  params :: "param list"
  returns :: ts_type

definition required :: "string \<Rightarrow> ts_type \<Rightarrow> param" where
  "required n t = \<lparr>param_name = n, param_type = t, optional = False\<rparr>"

text \<open>
  \<^verbatim>\<open>export class Game\<close> (lines 4-18), member by member in the source's order. The
  constructor's result is the instance.
\<close>

definition Game_members :: "decl list" where
  "Game_members =
     [\<lparr>decl_name = ''free'', params = [], returns = T_void\<rparr>,
      \<lparr>decl_name = ''Symbol.dispose'', params = [], returns = T_void\<rparr>,
      \<lparr>decl_name = ''get_board_state'', params = [], returns = T_any\<rparr>,
      \<lparr>decl_name = ''get_eval_breakdown'', params = [], returns = T_any\<rparr>,
      \<lparr>decl_name = ''get_hint'', params = [required ''depth'' T_number], returns = T_any\<rparr>,
      \<lparr>decl_name = ''get_last_evals'', params = [], returns = T_bigint\<rparr>,
      \<lparr>decl_name = ''get_legal_moves_for_square'',
        params = [required ''row'' T_number, required ''col'' T_number], returns = T_any\<rparr>,
      \<lparr>decl_name = ''make_ai_move'', params = [], returns = T_any\<rparr>,
      \<lparr>decl_name = ''make_move'',
        params = [required ''from_row'' T_number, required ''from_col'' T_number,
                  required ''to_row'' T_number, required ''to_col'' T_number,
                  \<lparr>param_name = ''promotion'', param_type = T_string_or_null, optional = True\<rparr>],
        returns = T_any\<rparr>,
      \<lparr>decl_name = ''constructor'', params = [], returns = T_named ''Game''\<rparr>,
      \<lparr>decl_name = ''set_auto_deepen'',
        params = [required ''enabled'' T_boolean, required ''min_evals'' T_bigint],
        returns = T_void\<rparr>,
      \<lparr>decl_name = ''set_depth'', params = [required ''depth'' T_number], returns = T_void\<rparr>,
      \<lparr>decl_name = ''set_module'',
        params = [required ''name'' T_string, required ''enabled'' T_boolean],
        returns = T_void\<rparr>]"

text \<open>
  The functions the module exports beside the class: \<^verbatim>\<open>build_timestamp\<close> (line 20),
  \<^verbatim>\<open>initSync\<close> (line 56) and the default export (line 66).
\<close>

definition module_functions :: "decl list" where
  "module_functions =
     [\<lparr>decl_name = ''build_timestamp'', params = [], returns = T_string\<rparr>,
      \<lparr>decl_name = ''initSync'',
        params = [required ''module'' (T_named ''{ module: SyncInitInput } | SyncInitInput'')],
        returns = T_named ''InitOutput''\<rparr>,
      \<lparr>decl_name = ''default'',
        params = [\<lparr>param_name = ''module_or_path'',
          param_type = T_named ''{ module_or_path: InitInput | Promise<InitInput> } | InitInput | Promise<InitInput>'',
          optional = True\<rparr>],
        returns = T_named ''Promise<InitOutput>''\<rparr>]"

text \<open>
  How a list of declarations declares a name: its parameter names in order, each with
  its optional mark; \<open>None\<close> when the name is not declared there.
\<close>

definition declared :: "decl list \<Rightarrow> string \<Rightarrow> (string \<times> bool) list option" where
  "declared ds n =
     map_option (\<lambda>d. map (\<lambda>p. (param_name p, optional p)) (params d))
       (find (\<lambda>d. decl_name d = n) ds)"

text \<open>
  The command set as the specification words it (section 6), in its order; \<open>True\<close> marks
  the parameter written with a question mark.
\<close>

definition spec_command_set :: "(string \<times> (string \<times> bool) list) list" where
  "spec_command_set =
     [(''make_move'', [(''from_row'', False), (''from_col'', False), (''to_row'', False),
                      (''to_col'', False), (''promotion'', True)]),
      (''make_ai_move'', []),
      (''get_board_state'', []),
      (''get_legal_moves_for_square'', [(''row'', False), (''col'', False)]),
      (''get_hint'', [(''depth'', False)]),
      (''get_eval_breakdown'', []),
      (''get_last_evals'', []),
      (''set_module'', [(''name'', False), (''enabled'', False)]),
      (''set_depth'', [(''depth'', False)]),
      (''set_auto_deepen'', [(''enabled'', False), (''min_evals'', False)])]"

section \<open>The engine, as the specification describes it\<close>

subsection \<open>Position and rules\<close>

text \<open>
  Modelled from the spec: the Position of section 3, which the engine's source (not among
  the repository's files) would define. A cell of the 8 by 8 grid is empty or holds a
  piece kind and a colour.
\<close>

datatype color = White | Black

datatype piece_kind = Pawn | Knight | Bishop | Rook | Queen | King

text \<open>
  Modelled from the spec: a square is a (row, column) pair, each from 0 to 7. Row 0 is
  Black's back rank and row 7 White's, so White's pawns move towards row 0; the spec
  leaves the orientation open and this is the one the binding's (row, col) arguments
  suggest.
\<close>

type_synonym square = "int \<times> int"

type_synonym cell = "(piece_kind \<times> color) option"

type_synonym grid = "cell list list"

text \<open>
  Modelled from the spec: the Position record of section 3: the grid, the side to move,
  the castling rights still held (a colour with \<open>True\<close> for the king's side, \<open>False\<close> for the
  queen's), the en-passant target and the two move counters.
\<close>

record position =
  board :: grid
  side_to_move :: color
  castling_rights :: "(color \<times> bool) list"
  en_passant :: "square option"
  halfmove_clock :: nat
  fullmove_number :: nat

text \<open>
  Modelled from the spec: the Move of section 3: origin, destination and the optional
  promotion piece kind.
\<close>

record move =
  origin :: square
  dest :: square
  promotion :: "piece_kind option"

text \<open>
  Modelled from the spec: the other side.
\<close>

fun opponent :: "color \<Rightarrow> color" where
  "opponent White = Black"
| "opponent Black = White"

text \<open>
  Modelled from the spec: the bounds check on coordinates (0 to 7), and reading and
  writing a cell of the grid. Off the board there is no piece.
\<close>

definition on_board :: "square \<Rightarrow> bool" where
  "on_board sq = (0 \<le> fst sq \<and> fst sq < 8 \<and> 0 \<le> snd sq \<and> snd sq < 8)"

definition piece_at :: "grid \<Rightarrow> square \<Rightarrow> cell" where
  "piece_at b sq = (if on_board sq then b ! nat (fst sq) ! nat (snd sq) else None)"

definition put :: "grid \<Rightarrow> square \<Rightarrow> cell \<Rightarrow> grid" where
  "put b sq x = b[nat (fst sq) := (b ! nat (fst sq))[nat (snd sq) := x]]"

text \<open>
  Modelled from the spec: the 64 squares, row by row.
\<close>

definition all_squares :: "square list" where
  "all_squares = [(r, c). r \<leftarrow> [0..7], c \<leftarrow> [0..7]]"

text \<open>
  Modelled from the spec: a square a piece of colour \<open>who\<close> may move to or capture on:
  on the board and not held by a piece of its own colour.
\<close>

definition free_for :: "grid \<Rightarrow> color \<Rightarrow> square \<Rightarrow> bool" where
  "free_for b who t =
     (on_board t \<and> (case piece_at b t of None \<Rightarrow> True | Some (k, col) \<Rightarrow> col \<noteq> who))"

text \<open>
  Modelled from the spec: a sliding piece moves along a direction and stops at the first
  occupied square, capturing there if the piece is the opponent's (section 4.2). Seven
  steps cross the board.
\<close>

fun ray :: "grid \<Rightarrow> color \<Rightarrow> square \<Rightarrow> int \<times> int \<Rightarrow> nat \<Rightarrow> square list" where
  "ray b who sq d 0 = []"
| "ray b who sq d (Suc n) =
     (let t = (fst sq + fst d, snd sq + snd d) in
      if \<not> on_board t then []
      else case piece_at b t of
             None \<Rightarrow> t # ray b who t d n
           | Some (k, col) \<Rightarrow> if col = who then [] else [t])"

text \<open>
  Modelled from the spec: the standard movement rules of section 4.2, as offsets and
  directions.
\<close>

definition knight_offsets :: "(int \<times> int) list" where
  "knight_offsets = [(-2, -1), (-2, 1), (-1, -2), (-1, 2), (1, -2), (1, 2), (2, -1), (2, 1)]"

definition rook_directions :: "(int \<times> int) list" where
  "rook_directions = [(-1, 0), (1, 0), (0, -1), (0, 1)]"

definition bishop_directions :: "(int \<times> int) list" where
  "bishop_directions = [(-1, -1), (-1, 1), (1, -1), (1, 1)]"

text \<open>
  Modelled from the spec: the squares a stepping piece (knight, king) and a sliding
  piece (rook, bishop, queen) reach.
\<close>

definition steps :: "grid \<Rightarrow> color \<Rightarrow> square \<Rightarrow> (int \<times> int) list \<Rightarrow> square list" where
  "steps b who sq ds = filter (free_for b who) (map (\<lambda>d. (fst sq + fst d, snd sq + snd d)) ds)"

definition slides :: "grid \<Rightarrow> color \<Rightarrow> square \<Rightarrow> (int \<times> int) list \<Rightarrow> square list" where
  "slides b who sq ds = concat (map (\<lambda>d. ray b who sq d 7) ds)"

text \<open>
  Modelled from the spec: the rows that matter to a pawn and a king of each colour:
  the direction a pawn moves in, its start rank, the rank it promotes on, and the home
  rank of the king and rooks.
\<close>

definition forward :: "color \<Rightarrow> int" where
  "forward who = (case who of White \<Rightarrow> -1 | Black \<Rightarrow> 1)"

definition pawn_start_row :: "color \<Rightarrow> int" where
  "pawn_start_row who = (case who of White \<Rightarrow> 6 | Black \<Rightarrow> 1)"

definition last_row :: "color \<Rightarrow> int" where
  "last_row who = (case who of White \<Rightarrow> 0 | Black \<Rightarrow> 7)"

definition home_row :: "color \<Rightarrow> int" where
  "home_row who = (case who of White \<Rightarrow> 7 | Black \<Rightarrow> 0)"

text \<open>
  Modelled from the spec: the squares a piece bears on, by kind. For a pawn these are
  the two diagonal squares ahead, whatever stands there.
\<close>

fun targets :: "grid \<Rightarrow> piece_kind \<Rightarrow> color \<Rightarrow> square \<Rightarrow> square list" where
  "targets b Knight who sq = steps b who sq knight_offsets"
| "targets b King who sq = steps b who sq (rook_directions @ bishop_directions)"
| "targets b Rook who sq = slides b who sq rook_directions"
| "targets b Bishop who sq = slides b who sq bishop_directions"
| "targets b Queen who sq = slides b who sq (rook_directions @ bishop_directions)"
| "targets b Pawn who sq =
     filter on_board [(fst sq + forward who, snd sq - 1), (fst sq + forward who, snd sq + 1)]"

text \<open>
  Modelled from the spec: "is square attacked" and "is side in check" of section
  4.1: a square is attacked by a colour when a piece of that colour bears on it; a side
  is in check when its king's square is attacked by the opponent.
\<close>

definition attacked :: "grid \<Rightarrow> color \<Rightarrow> square \<Rightarrow> bool" where
  "attacked b by sq =
     list_ex (\<lambda>a. case piece_at b a of
                        None \<Rightarrow> False
                      | Some (k, col) \<Rightarrow> col = by \<and> sq \<in> set (targets b k col a))
       all_squares"

definition in_check :: "grid \<Rightarrow> color \<Rightarrow> bool" where
  "in_check b who =
     list_ex (\<lambda>sq. piece_at b sq = Some (King, who) \<and> attacked b (opponent who) sq) all_squares"

text \<open>
  Modelled from the spec: a move with no promotion piece.
\<close>

definition plain :: "square \<Rightarrow> square \<Rightarrow> move" where
  "plain a t = \<lparr>origin = a, dest = t, promotion = None\<rparr>"

text \<open>
  Modelled from the spec: the pawn's pseudo-legal moves of section 4.2: the forward
  push, the double push from the start rank, the diagonal capture, en passant onto the
  target square, and on reaching the back rank one distinct move per promotion piece
  (queen, rook, bishop, knight).
\<close>

definition pawn_moves :: "position \<Rightarrow> color \<Rightarrow> square \<Rightarrow> move list" where
  "pawn_moves p who sq =
     (let b = board p;
          one = (fst sq + forward who, snd sq);
          two = (fst sq + 2 * forward who, snd sq);
          pushes =
            (if on_board one \<and> piece_at b one = None
             then one # (if fst sq = pawn_start_row who \<and> piece_at b two = None then [two] else [])
             else []);
          captures =
            filter (\<lambda>t. (case piece_at b t of None \<Rightarrow> False | Some (k, col) \<Rightarrow> col \<noteq> who)
                         \<or> en_passant p = Some t)
              (targets b Pawn who sq)
      in concat (map (\<lambda>t. if fst t = last_row who
                            then map (\<lambda>k. \<lparr>origin = sq, dest = t, promotion = Some k\<rparr>)
                                   [Queen, Rook, Bishop, Knight]
                            else [plain sq t])
                   (pushes @ captures)))"

text \<open>
  Modelled from the spec: castling as section 4.2 requires it: the right still
  held, king and rook on their squares, the squares between them empty, the king not in
  check and neither passing over nor landing on an attacked square.
\<close>

definition may_castle :: "position \<Rightarrow> color \<Rightarrow> bool \<Rightarrow> bool" where
  "may_castle p who king_side = ((who, king_side) \<in> set (castling_rights p))"

definition castling_moves :: "position \<Rightarrow> color \<Rightarrow> move list" where
  "castling_moves p who =
     (let b = board p; r = home_row who; foe = opponent who in
      if piece_at b (r, 4) \<noteq> Some (King, who) \<or> attacked b foe (r, 4) then []
      else
        (if may_castle p who True \<and> piece_at b (r, 7) = Some (Rook, who) \<and>
            piece_at b (r, 5) = None \<and> piece_at b (r, 6) = None \<and>
            \<not> attacked b foe (r, 5) \<and> \<not> attacked b foe (r, 6)
         then [plain (r, 4) (r, 6)] else []) @
        (if may_castle p who False \<and> piece_at b (r, 0) = Some (Rook, who) \<and>
            piece_at b (r, 1) = None \<and> piece_at b (r, 2) = None \<and> piece_at b (r, 3) = None \<and>
            \<not> attacked b foe (r, 3) \<and> \<not> attacked b foe (r, 2)
         then [plain (r, 4) (r, 2)] else []))"

text \<open>
  Modelled from the spec: the pseudo-legal moves of the side to move, over all its
  pieces (section 4.2).
\<close>

definition pseudo_legal :: "position \<Rightarrow> move list" where
  "pseudo_legal p =
     (let b = board p; who = side_to_move p in
      concat (map (\<lambda>sq. case piece_at b sq of
                           None \<Rightarrow> []
                         | Some (k, col) \<Rightarrow>
                             if col \<noteq> who then []
                             else if k = Pawn then pawn_moves p who sq
                             else map (plain sq) (targets b k who sq))
                all_squares)
      @ castling_moves p who)"

text \<open>
  Modelled from the spec: \<open>apply\<close> of section 4.1, the successor position. The piece
  goes to its destination (a pawn on the back rank becomes the promotion piece, a queen
  when none is given); an en-passant capture removes the passed pawn; castling moves the
  rook too; a castling right is lost for good when the king moves or when a move starts
  or ends on the rook's corner; the en-passant target is set by a double push only; the
  half-move clock restarts on a pawn move or capture; the full-move number grows after
  Black's move. With no piece on the origin the position stays as it is.
\<close>

definition apply_move :: "position \<Rightarrow> move \<Rightarrow> position" where
  "apply_move p m =
     (let b = board p; a = origin m; t = dest m in
      case piece_at b a of
        None \<Rightarrow> p
      | Some (k, who) \<Rightarrow>
          let capture = (piece_at b t \<noteq> None);
              passing = (k = Pawn \<and> snd a \<noteq> snd t \<and> piece_at b t = None);
              castle = (k = King \<and> \<bar>snd t - snd a\<bar> = 2);
              placed = (if k = Pawn \<and> fst t = last_row who
                        then (case promotion m of None \<Rightarrow> Queen | Some q \<Rightarrow> q) else k);
              b1 = put (put b a None) t (Some (placed, who));
              b2 = (if passing then put b1 (fst a, snd t) None else b1);
              b3 = (if castle then
                      (if snd t = 6
                       then put (put b2 (fst a, 7) None) (fst a, 5) (Some (Rook, who))
                       else put (put b2 (fst a, 0) None) (fst a, 3) (Some (Rook, who)))
                    else b2);
              lost = (\<lambda>(c, ks). (k = King \<and> c = who) \<or>
                        (home_row c, if ks then 7 else 0) \<in> {a, t})
          in \<lparr>board = b3,
              side_to_move = opponent who,
              castling_rights = filter (\<lambda>x. \<not> lost x) (castling_rights p),
              en_passant = (if k = Pawn \<and> \<bar>fst t - fst a\<bar> = 2
                            then Some (fst a + forward who, snd a) else None),
              halfmove_clock = (if k = Pawn \<or> capture then 0 else Suc (halfmove_clock p)),
              fullmove_number = (if who = Black then Suc (fullmove_number p)
                                 else fullmove_number p)\<rparr>)"

text \<open>
  Modelled from the spec: \<open>legal_moves\<close> of section 4.2: the pseudo-legal moves, without
  those that leave the moving side's own king in check after application (simulate and
  check the attack).
\<close>

definition legal_moves :: "position \<Rightarrow> move list" where
  "legal_moves p =
     filter (\<lambda>m. \<not> in_check (board (apply_move p m)) (side_to_move p)) (pseudo_legal p)"

text \<open>
  Modelled from the spec: \<open>legal_moves_for_square\<close> of section 4.2, the legal moves
  that start on the square, by their destinations.
\<close>

definition legal_moves_for_square :: "position \<Rightarrow> square \<Rightarrow> square list" where
  "legal_moves_for_square p sq = map dest (filter (\<lambda>m. origin m = sq) (legal_moves p))"

text \<open>
  Modelled from the spec: the standard starting position (section 4.5).
\<close>

definition back_rank :: "color \<Rightarrow> cell list" where
  "back_rank who = map (\<lambda>k. Some (k, who)) [Rook, Knight, Bishop, Queen, King, Bishop, Knight, Rook]"

definition start :: position where
  "start =
     \<lparr>board = [back_rank Black, replicate 8 (Some (Pawn, Black)),
               replicate 8 None, replicate 8 None, replicate 8 None, replicate 8 None,
               replicate 8 (Some (Pawn, White)), back_rank White],
      side_to_move = White,
      castling_rights = [(White, True), (White, False), (Black, True), (Black, False)],
      en_passant = None,
      halfmove_clock = 0,
      fullmove_number = 1\<rparr>"

text \<open>
  Modelled from the spec: the positions reachable via legal play from the standard
  starting position.
\<close>

inductive reachable :: "position \<Rightarrow> bool" where
  at_start: "reachable start"
| after_move: "reachable p \<Longrightarrow> m \<in> set (legal_moves p) \<Longrightarrow> reachable (apply_move p m)"

subsection \<open>Evaluation\<close>

text \<open>
  Modelled from the spec: the two recoverable conditions of section 7.
\<close>

datatype engine_error = Illegal_move | Invalid_configuration

text \<open>
  Modelled from the spec: the Evaluation Engine of section 4.3, whose source is not
  among the repository's files. A module is a name with a pure function from the
  position to a signed contribution; the registry is a fixed, ordered list of modules
  and which are enabled is a mapping from names to booleans (section 9). The spec names
  no module for certain, so the registry is a parameter; contributions are integers.
\<close>

type_synonym 'p scoring_module = "string \<times> ('p \<Rightarrow> int)"

text \<open>
  Modelled from the spec: the EvaluationBreakdown of section 3: the enabled modules'
  contributions, in the registry's order. A disabled module has no entry.
\<close>

definition breakdown :: "'p scoring_module list \<Rightarrow> (string \<Rightarrow> bool) \<Rightarrow> 'p \<Rightarrow> (string \<times> int) list" where
  "breakdown registry enabled p =
     map (\<lambda>(name, score). (name, score p)) (filter (\<lambda>(name, score). enabled name) registry)"

text \<open>
  Modelled from the spec: \<open>evaluate\<close> of section 4.3, the total with the breakdown.
\<close>

definition evaluate :: "'p scoring_module list \<Rightarrow> (string \<Rightarrow> bool) \<Rightarrow> 'p \<Rightarrow> int \<times> (string \<times> int) list" where
  "evaluate registry enabled p =
     (sum_list (map snd (breakdown registry enabled p)), breakdown registry enabled p)"

text \<open>
  Modelled from the spec: \<open>set_module\<close> of section 4.3: an unknown name fails with an
  invalid-argument condition and the configuration stays as it was.
\<close>

definition set_module ::
  "'p scoring_module list \<Rightarrow> (string \<Rightarrow> bool) \<Rightarrow> string \<Rightarrow> bool \<Rightarrow> engine_error + (string \<Rightarrow> bool)" where
  "set_module registry enabled name on =
     (if name \<in> set (map fst registry) then Inr (enabled(name := on))
      else Inl Invalid_configuration)"

subsection \<open>Search and the game controller\<close>

text \<open>
  Modelled from the spec: the EngineConfig of section 3: the search depth, the
  per-module flags, the auto-deepen flag and its minimum-evaluations threshold.
\<close>

record config =
  depth :: nat
  modules :: "string \<Rightarrow> bool"
  auto_deepen :: bool
  min_evals :: nat












text \<open>
  Samples to run the engine's model on: two modules over integer positions, and a
  fixed-depth search that evaluates \<open>3 ^ d\<close> nodes at depth \<open>d\<close> and has a move unless the
  position is 0.
\<close>

definition sample_registry :: "int scoring_module list" where
  "sample_registry = [(''material'', \<lambda>p. p), (''mobility'', \<lambda>p. 2)]"



section \<open>The dispatcher: how each case unfolds\<close>

lemma named: "msg_method msg = JString m \<Longrightarrow> msg \<noteq> JUndefined \<and> msg \<noteq> JNull"
  by (cases msg) (simp_all add: msg_method_def)

lemma handle_nullish:
  "msg = JUndefined \<or> msg = JNull \<Longrightarrow> handle env msg s = (Inl TypeError, s)"
  by (simp add: handle_def)

lemma handle_unknown:
  "msg \<noteq> JUndefined \<Longrightarrow> msg \<noteq> JNull \<Longrightarrow> msg_method msg \<notin> JString ` set known_methods \<Longrightarrow>
   handle env msg s = unknown_method env (msg_id msg) (msg_method msg) s"
  by (simp add: handle_def known_methods_def)

lemma handle_new_game:
  "msg_method msg = JString ''new_game'' \<Longrightarrow>
   handle env msg s =
     respond (msg_id msg) (returning (\<lambda>u. JNull) (assign_game (new_Game env s)))"
  by (frule named) (simp add: handle_def)

lemma handle_get_board_state:
  "msg_method msg = JString ''get_board_state'' \<Longrightarrow>
   handle env msg s =
     respond (msg_id msg) (on_game s
       (invoke ''get_board_state'' (\<lambda>g xs. Game_get_board_state env g) []))"
  by (frule named) (simp add: handle_def)

lemma handle_make_move:
  "msg_method msg = JString ''make_move'' \<Longrightarrow>
   handle env msg s =
     respond (msg_id msg) (on_game s
       (spreading (msg_args msg) (invoke ''make_move'' (Game_make_move env))))"
  by (frule named) (simp add: handle_def)

lemma handle_make_ai_move:
  "msg_method msg = JString ''make_ai_move'' \<Longrightarrow>
   handle env msg s =
     respond (msg_id msg) (on_game s
       (invoke ''make_ai_move'' (\<lambda>g xs. Game_make_ai_move env g) []))"
  by (frule named) (simp add: handle_def)

lemma handle_get_hint:
  "msg_method msg = JString ''get_hint'' \<Longrightarrow>
   handle env msg s =
     respond (msg_id msg) (on_game s
       (spreading (msg_args msg) (invoke ''get_hint'' (Game_get_hint env))))"
  by (frule named) (simp add: handle_def)

lemma handle_get_legal_moves_for_square:
  "msg_method msg = JString ''get_legal_moves_for_square'' \<Longrightarrow>
   handle env msg s =
     respond (msg_id msg) (on_game s
       (spreading (msg_args msg)
         (invoke ''get_legal_moves_for_square'' (Game_get_legal_moves_for_square env))))"
  by (frule named) (simp add: handle_def)

lemma handle_get_eval_breakdown:
  "msg_method msg = JString ''get_eval_breakdown'' \<Longrightarrow>
   handle env msg s =
     respond (msg_id msg) (on_game s
       (invoke ''get_eval_breakdown'' (\<lambda>g xs. Game_get_eval_breakdown env g) []))"
  by (frule named) (simp add: handle_def)

lemma handle_get_last_evals:
  "msg_method msg = JString ''get_last_evals'' \<Longrightarrow>
   handle env msg s =
     respond (msg_id msg) (returning (\<lambda>n. JNumber (Number n)) (on_game s
       (invoke ''get_last_evals'' (\<lambda>g xs. Game_get_last_evals env g) [])))"
  by (frule named) (simp add: handle_def)

lemma handle_set_module:
  "msg_method msg = JString ''set_module'' \<Longrightarrow>
   handle env msg s =
     respond (msg_id msg) (returning (\<lambda>u. JNull) (on_game s
       (spreading (msg_args msg) (invoke ''set_module'' (Game_set_module env)))))"
  by (frule named) (simp add: handle_def)

lemma handle_set_depth:
  "msg_method msg = JString ''set_depth'' \<Longrightarrow>
   handle env msg s =
     respond (msg_id msg) (returning (\<lambda>u. JNull) (on_game s
       (spreading (msg_args msg) (invoke ''set_depth'' (Game_set_depth env)))))"
  by (frule named) (simp add: handle_def)

lemma handle_set_auto_deepen:
  "msg_method msg = JString ''set_auto_deepen'' \<Longrightarrow>
   handle env msg s =
     respond (msg_id msg) (returning (\<lambda>u. JNull) (on_game s
       (auto_deepen_args env (msg_args msg)
         (invoke ''set_auto_deepen'' (Game_set_auto_deepen env)))))"
  by (frule named) (simp add: handle_def)

lemma known_methods_cases:
  assumes "m \<in> JString ` set known_methods"
  obtains "m = JString ''new_game''" | "m = JString ''get_board_state''"
    | "m = JString ''make_move''" | "m = JString ''make_ai_move''" | "m = JString ''get_hint''"
    | "m = JString ''get_legal_moves_for_square''" | "m = JString ''get_eval_breakdown''"
    | "m = JString ''get_last_evals''" | "m = JString ''set_module''"
    | "m = JString ''set_depth''" | "m = JString ''set_auto_deepen''"
proof -
  from assms have "m = JString ''new_game'' \<or> m = JString ''get_board_state''
    \<or> m = JString ''make_move'' \<or> m = JString ''make_ai_move'' \<or> m = JString ''get_hint''
    \<or> m = JString ''get_legal_moves_for_square'' \<or> m = JString ''get_eval_breakdown''
    \<or> m = JString ''get_last_evals'' \<or> m = JString ''set_module''
    \<or> m = JString ''set_depth'' \<or> m = JString ''set_auto_deepen''"
    unfolding known_methods_def
    by (simp only: set_simps image_insert image_empty insert_iff empty_iff HOL.simp_thms)
  then show thesis
    by (elim disjE) (erule that)+
qed

lemma request_fields:
  "msg_id (request i m xs) = JNumber (Finite (of_nat i))"
  "msg_method (request i m xs) = JString m"
  "msg_args (request i m xs) = JArray xs"
  "request i m xs \<noteq> JUndefined"
  "request i m xs \<noteq> JNull"
  by (simp_all add: request_def msg_id_def msg_method_def msg_args_def own_def)


section \<open>What every case that calls a member does\<close>

lemma member_call_invoke: "game s = Some g \<Longrightarrow> member_call m s (invoke m F xs g s)"
  by (simp add: member_call_def invoke_def split: prod.splits)

lemma member_call_spreading:
  "game s = Some g \<Longrightarrow> member_call m s (spreading a (invoke m F) g s)"
  by (cases "spread a") (simp_all add: spreading_def member_call_invoke, simp add: member_call_def)

lemma member_call_auto_deepen_args:
  assumes g: "game s = Some g"
  shows "member_call m s (auto_deepen_args env a (invoke m F) g s)"
proof -
  have f: "\<And>e. member_call m s ((Inl e, s) :: (exn + 'b) \<times> 'a worker)"
    using g by (simp add: member_call_def)
  show ?thesis
    unfolding auto_deepen_args_def
    by (simp add: f member_call_invoke [OF g] split: sum.splits)
qed

lemma member_call_on_game:
  assumes "\<And>g. game s = Some g \<Longrightarrow> member_call m s (k g s)"
  shows "member_call m s (on_game s k)"
proof (cases "game s")
  case None
  then show ?thesis by (simp add: on_game_def member_call_def)
next
  case (Some g)
  with assms [OF Some] show ?thesis by (simp add: on_game_def)
qed

lemma member_call_returning: "member_call m s r \<Longrightarrow> member_call m s (returning f r)"
  by (cases r; cases "fst r") (auto simp: member_call_def split: option.splits)


lemma respond_fields:
  "game (snd (respond i r)) = game (snd r)"
  "allocated (snd (respond i r)) = allocated (snd r)"
  "world (snd (respond i r)) = world (snd r)"
  "calls (snd (respond i r)) = calls (snd r)"
  "fst (respond i r) = Inl e \<longleftrightarrow> fst r = Inl e"
  "fst (respond i r) = Inl e \<Longrightarrow> posted (snd (respond i r)) = posted (snd r)"
  by (cases r; cases "fst r"; simp add: postMessage_def)+

lemma unknown_method_fields:
  "game (snd (unknown_method env i m s)) = game s"
  "allocated (snd (unknown_method env i m s)) = allocated s"
  "world (snd (unknown_method env i m s)) = world s"
  "calls (snd (unknown_method env i m s)) = calls s"
  "fst (unknown_method env i m s) = Inl e \<Longrightarrow> posted (snd (unknown_method env i m s)) = posted s"
  by (simp_all add: unknown_method_def postMessage_def split: option.splits)

lemma handle_member_call:
  assumes "msg_method msg \<in> JString ` set known_methods"
    and "msg_method msg \<noteq> JString ''new_game''"
  shows "\<exists>r. handle env msg s = respond (msg_id msg) r \<and>
    (\<exists>n\<in>set known_methods. member_call n s r)"
  using assms(1)
proof (cases rule: known_methods_cases)
  case 1
  with assms(2) show ?thesis by simp
next
  case 2
  show ?thesis
    unfolding handle_get_board_state [OF 2]
    by (rule exI, rule conjI, rule refl, rule bexI [where x = "''get_board_state''"])
      (intro member_call_on_game member_call_invoke, simp_all add: known_methods_def)
next
  case 3
  show ?thesis
    unfolding handle_make_move [OF 3]
    by (rule exI, rule conjI, rule refl, rule bexI [where x = "''make_move''"])
      (intro member_call_on_game member_call_spreading, simp_all add: known_methods_def)
next
  case 4
  show ?thesis
    unfolding handle_make_ai_move [OF 4]
    by (rule exI, rule conjI, rule refl, rule bexI [where x = "''make_ai_move''"])
      (intro member_call_on_game member_call_invoke, simp_all add: known_methods_def)
next
  case 5
  show ?thesis
    unfolding handle_get_hint [OF 5]
    by (rule exI, rule conjI, rule refl, rule bexI [where x = "''get_hint''"])
      (intro member_call_on_game member_call_spreading, simp_all add: known_methods_def)
next
  case 6
  show ?thesis
    unfolding handle_get_legal_moves_for_square [OF 6]
    by (rule exI, rule conjI, rule refl, rule bexI [where x = "''get_legal_moves_for_square''"])
      (intro member_call_on_game member_call_spreading, simp_all add: known_methods_def)
next
  case 7
  show ?thesis
    unfolding handle_get_eval_breakdown [OF 7]
    by (rule exI, rule conjI, rule refl, rule bexI [where x = "''get_eval_breakdown''"])
      (intro member_call_on_game member_call_invoke, simp_all add: known_methods_def)
next
  case 8
  show ?thesis
    unfolding handle_get_last_evals [OF 8]
    by (rule exI, rule conjI, rule refl, rule bexI [where x = "''get_last_evals''"])
      (intro member_call_returning member_call_on_game member_call_invoke,
        simp_all add: known_methods_def)
next
  case 9
  show ?thesis
    unfolding handle_set_module [OF 9]
    by (rule exI, rule conjI, rule refl, rule bexI [where x = "''set_module''"])
      (intro member_call_returning member_call_on_game member_call_spreading,
        simp_all add: known_methods_def)
next
  case 10
  show ?thesis
    unfolding handle_set_depth [OF 10]
    by (rule exI, rule conjI, rule refl, rule bexI [where x = "''set_depth''"])
      (intro member_call_returning member_call_on_game member_call_spreading,
        simp_all add: known_methods_def)
next
  case 11
  show ?thesis
    unfolding handle_set_auto_deepen [OF 11]
    by (rule exI, rule conjI, rule refl, rule bexI [where x = "''set_auto_deepen''"])
      (intro member_call_returning member_call_on_game member_call_auto_deepen_args,
        simp_all add: known_methods_def)
qed


lemma handle_keeps_game:
  assumes "msg_method msg \<noteq> JString ''new_game''"
  shows "game (snd (handle env msg s)) = game s"
proof (cases "msg = JUndefined \<or> msg = JNull")
  case True
  then show ?thesis by (simp add: handle_nullish)
next
  case nn: False
  show ?thesis
  proof (cases "msg_method msg \<in> JString ` set known_methods")
    case True
    from handle_member_call [OF True assms] obtain r n
      where h: "handle env msg s = respond (msg_id msg) r" and m: "member_call n s r"
      by blast
    from m have "game (snd r) = game s"
      by (cases "game s") (simp_all add: member_call_def)
    with h show ?thesis by (simp add: respond_fields)
  next
    case False
    with nn show ?thesis by (simp add: handle_unknown unknown_method_fields)
  qed
qed


lemma handle_new_game_eq:
  assumes "msg_method msg = JString ''new_game''"
  shows "handle env msg s =
     (case Game_constructor env (allocated s) (world s) of
        (Inl e, w') \<Rightarrow>
          (Inl e, s\<lparr>allocated := Suc (allocated s), world := w',
                    calls := calls s @ [Construct (allocated s)]\<rparr>)
      | (Inr u, w') \<Rightarrow>
          (Inr (), s\<lparr>game := Some (allocated s), allocated := Suc (allocated s), world := w',
                     posted := posted s @ [Result_msg (msg_id msg) JNull],
                     calls := calls s @ [Construct (allocated s)]\<rparr>))"
  by (simp add: handle_new_game [OF assms] new_Game_def postMessage_def Let_def
      split: prod.splits sum.splits)





lemma auto_deepen_args_ignores_free:
  "auto_deepen_args (env\<lparr>Game_free := f, Game_dispose := d\<rparr>) a =
   auto_deepen_args env a"
  by (intro ext) (simp add: auto_deepen_args_def split: sum.splits)

lemma handle_ignores_free:
  "handle (env\<lparr>Game_free := f, Game_dispose := d\<rparr>) msg s = handle env msg s"
  by (simp add: handle_def new_Game_def Let_def auto_deepen_args_ignores_free
      unknown_method_def cong: if_cong)

lemma run_ignores_free:
  "run (env\<lparr>Game_free := f, Game_dispose := d\<rparr>) ms s = run env ms s"
  by (induction ms arbitrary: s) (simp_all add: handle_ignores_free)

lemma releases_known: "n \<in> set known_methods \<Longrightarrow> \<not> releases (Invoke g n xs)"
  unfolding known_methods_def
  by (simp only: set_simps insert_iff empty_iff HOL.simp_thms) (elim disjE; simp)

lemma handle_calls:
  "calls (snd (handle env msg s)) = calls s \<or>
   (\<exists>c. calls (snd (handle env msg s)) = calls s @ [c] \<and> \<not> releases c)"
proof (cases "msg = JUndefined \<or> msg = JNull")
  case True
  then show ?thesis by (simp add: handle_nullish)
next
  case nn: False
  show ?thesis
  proof (cases "msg_method msg \<in> JString ` set known_methods")
    case False
    with nn show ?thesis by (simp add: handle_unknown unknown_method_fields)
  next
    case True
    show ?thesis
    proof (cases "msg_method msg = JString ''new_game''")
      case n: True
      show ?thesis
        by (simp add: handle_new_game_eq [OF n] split: prod.splits sum.splits)
    next
      case n: False
      from handle_member_call [OF True n] obtain r k
        where h: "handle env msg s = respond (msg_id msg) r"
          and k: "k \<in> set known_methods" and m: "member_call k s r"
        by blast
      from m releases_known [OF k]
      have "calls (snd r) = calls s \<or> (\<exists>c. calls (snd r) = calls s @ [c] \<and> \<not> releases c)"
        by (cases "game s") (auto simp: member_call_def)
      with h show ?thesis by (simp add: respond_fields)
    qed
  qed
qed

lemma handle_no_release:
  "filter releases (calls (snd (handle env msg s))) = filter releases (calls s)"
  using handle_calls [of env msg s] by auto

lemma run_no_release: "filter releases (calls (run env ms s)) = filter releases (calls s)"
  by (induction ms arbitrary: s) (simp_all add: handle_no_release)

lemma handle_allocated:
  "allocated s \<le> allocated (snd (handle env msg s))"
proof (cases "msg = JUndefined \<or> msg = JNull")
  case True
  then show ?thesis by (simp add: handle_nullish)
next
  case nn: False
  show ?thesis
  proof (cases "msg_method msg \<in> JString ` set known_methods")
    case False
    with nn show ?thesis by (simp add: handle_unknown unknown_method_fields)
  next
    case True
    show ?thesis
    proof (cases "msg_method msg = JString ''new_game''")
      case n: True
      show ?thesis
        by (simp add: handle_new_game_eq [OF n] split: prod.splits sum.splits)
    next
      case n: False
      from handle_member_call [OF True n] obtain r k
        where h: "handle env msg s = respond (msg_id msg) r"
          and m: "member_call k s r"
        by blast
      from m have "allocated (snd r) = allocated s"
        by (cases "game s") (auto simp: member_call_def)
      with h show ?thesis by (simp add: respond_fields)
    qed
  qed
qed


lemma handle_fresh: "fresh s \<Longrightarrow> fresh (snd (handle env msg s))"
proof (cases "msg_method msg = JString ''new_game''")
  case True
  assume "fresh s"
  then show ?thesis
    by (auto simp: fresh_def handle_new_game_eq [OF True] split: prod.splits sum.splits)
next
  case False
  assume "fresh s"
  with handle_allocated [of s env msg] handle_keeps_game [OF False, of env s]
  show ?thesis by (auto simp: fresh_def)
qed

lemma run_fresh: "fresh s \<Longrightarrow> fresh (run env ms s)"
proof (induction ms arbitrary: s)
  case Nil
  then show ?case by simp
next
  case (Cons m ms)
  from Cons.IH [OF handle_fresh [OF Cons.prems]] show ?case by simp
qed

lemma fresh_initial: "fresh (initial w)"
  by (simp add: fresh_def initial_def)


lemma sample_new_game:
  "handle sample_engine (request 1 ''new_game'' []) (initial 0) = (Inr (), started)"
  by (simp add: handle_new_game_eq request_fields initial_def sample_engine_def started_def)

section \<open>The dispatcher: an unknown method\<close>




section \<open>The dispatcher: the life of the \<open>game\<close> handle\<close>




section \<open>The dispatcher: instances are never released\<close>

text \<open>
  C10. Over every sequence of messages from the worker's first state, the log of calls
  into the binding holds no call of \<^verbatim>\<open>free\<close> and none of \<^verbatim>\<open>[Symbol.dispose]\<close>; and what
  the worker does is the same whatever these two members would do, so it never runs
  them. In particular, when \<open>game\<close> holds an instance \<open>g\<close> and a further \<^verbatim>\<open>new_game\<close> message
  is handled, the only call made is the constructor of a new object \<open>g'\<close>, different
  from \<open>g\<close>, and \<open>game\<close> is \<open>g'\<close> afterwards: the handle to \<open>g\<close> is overwritten and \<open>g\<close> was
  not released.
\<close>

theorem game_never_released:
  "filter releases (calls (run env ms (initial w))) = [] \<and>
   run (env\<lparr>Game_free := f, Game_dispose := d\<rparr>) ms (initial w) = run env ms (initial w) \<and>
   (game (run env ms (initial w)) = Some g \<and> msg_method msg = JString ''new_game'' \<and>
    handle env msg (run env ms (initial w)) = (Inr (), s') \<longrightarrow>
      (\<exists>g'. game s' = Some g' \<and> g' \<noteq> g \<and>
            calls s' = calls (run env ms (initial w)) @ [Construct g']))"
proof (intro conjI impI)
  show "filter releases (calls (run env ms (initial w))) = []"
    by (simp add: run_no_release initial_def)
  show "run (env\<lparr>Game_free := f, Game_dispose := d\<rparr>) ms (initial w) = run env ms (initial w)"
    by (rule run_ignores_free)
next
  let ?s = "run env ms (initial w)"
  assume a: "game ?s = Some g \<and> msg_method msg = JString ''new_game'' \<and>
    handle env msg ?s = (Inr (), s')"
  have "fresh ?s" by (rule run_fresh [OF fresh_initial])
  with a have g: "g < allocated ?s" by (simp add: fresh_def)
  from a have m: "msg_method msg = JString ''new_game''"
    and h: "handle env msg ?s = (Inr (), s')"
    by simp_all
  from h have "game s' = Some (allocated ?s) \<and> calls s' = calls ?s @ [Construct (allocated ?s)]"
    unfolding handle_new_game_eq [OF m] by (auto split: prod.splits sum.splits)
  with g show "\<exists>g'. game s' = Some g' \<and> g' \<noteq> g \<and> calls s' = calls ?s @ [Construct g']"
    by auto
qed

theorem game_never_released_witness:
  "run sample_engine [request 1 ''new_game'' []] (initial 0) = started \<and>
   game started = Some 0 \<and>
   handle sample_engine (request 2 ''new_game'' []) started =
     (Inr (), \<lparr>game = Some 1, allocated = 2, world = 0,
        posted = [Result_msg (JNumber (Finite 1)) JNull, Result_msg (JNumber (Finite 2)) JNull],
        calls = [Construct 0, Construct 1]\<rparr>) \<and>
   filter releases (calls (run sample_engine
      [request 1 ''new_game'' [], request 2 ''new_game'' []] (initial 0))) = [] \<and>
   (\<exists>g'. Some (1::nat) = Some g' \<and> g' \<noteq> 0 \<and> [Construct 0, Construct 1] = [Construct 0] @ [Construct g'])"
proof -
  note T = game_never_released [of sample_engine _ 0]
  have r: "run sample_engine [request 1 ''new_game'' []] (initial 0) = started"
    by (simp only: run.simps sample_new_game snd_conv)
  have g: "game started = Some 0"
    by (simp add: started_def)
  have h: "handle sample_engine (request 2 ''new_game'' []) started =
     (Inr (), \<lparr>game = Some 1, allocated = 2, world = 0,
        posted = [Result_msg (JNumber (Finite 1)) JNull, Result_msg (JNumber (Finite 2)) JNull],
        calls = [Construct 0, Construct 1]\<rparr>)"
    by (simp add: handle_new_game_eq request_fields sample_engine_def started_def)
  have k: "game (run sample_engine [request 1 ''new_game'' []] (initial 0)) = Some 0 \<and>
      msg_method (request 2 ''new_game'' []) = JString ''new_game'' \<and>
      handle sample_engine (request 2 ''new_game'' [])
        (run sample_engine [request 1 ''new_game'' []] (initial 0)) =
      (Inr (), \<lparr>game = Some 1, allocated = 2, world = 0,
        posted = [Result_msg (JNumber (Finite 1)) JNull, Result_msg (JNumber (Finite 2)) JNull],
        calls = [Construct 0, Construct 1]\<rparr>)"
    unfolding r using g h by (simp add: request_fields)
  have e: "\<exists>g'. Some (1::nat) = Some g' \<and> g' \<noteq> 0 \<and>
      [Construct 0, Construct 1] = [Construct 0] @ [Construct g']"
    using T [THEN conjunct2, THEN conjunct2, THEN mp, OF k] unfolding r
    by (simp add: started_def)
  from r g h T [THEN conjunct1] e show ?thesis by (intro conjI)
qed

section \<open>The dispatcher: when the call returns\<close>










lemma answered_posted [simp]:
  "posted (answered s g m xs w' i result) = posted s @ [Result_msg i result]"
  by (simp add: answered_def)













section \<open>The dispatcher: when the engine signals an error\<close>




section \<open>The dispatcher: the evaluation count as a number\<close>




section \<open>The binding declares the command set\<close>

text \<open>
  C4. Every command of the specification's command set is a member of the class
  \<^verbatim>\<open>Game\<close>, declared with exactly the parameters the specification lists, in the same
  order and with the same one optional (\<^verbatim>\<open>promotion\<close>); the constructor takes no
  argument; \<^verbatim>\<open>build_timestamp\<close> takes none either and is a function of the module, not a
  member of the class, so it needs no instance. The members of the class outside the
  command set are the constructor and the two that release an instance, \<^verbatim>\<open>free\<close> and
  \<^verbatim>\<open>[Symbol.dispose]\<close>.
\<close>

theorem binding_surface_has_command_set:
  "map (declared Game_members) (map fst spec_command_set) = map (\<lambda>c. Some (snd c)) spec_command_set \<and>
   declared Game_members ''constructor'' = Some [] \<and>
   declared module_functions ''build_timestamp'' = Some [] \<and>
   declared Game_members ''build_timestamp'' = None \<and>
   filter (\<lambda>n. n \<notin> set (map fst spec_command_set)) (map decl_name Game_members) =
     [''free'', ''Symbol.dispose'', ''constructor'']"
  by (simp add: declared_def Game_members_def module_functions_def spec_command_set_def required_def)



section \<open>The engine's model: legal moves\<close>

lemma pawn_moves_origin: "m \<in> set (pawn_moves p who sq) \<Longrightarrow> origin m = sq"
  by (auto simp: pawn_moves_def Let_def plain_def split: if_splits)

lemma castling_moves_origin:
  "m \<in> set (castling_moves p who) \<Longrightarrow>
   piece_at (board p) (origin m) = Some (King, who)"
  by (auto simp: castling_moves_def Let_def plain_def split: if_splits)

lemma pseudo_legal_origin:
  assumes "m \<in> set (pseudo_legal p)"
  shows "\<exists>k. piece_at (board p) (origin m) = Some (k, side_to_move p)"
proof -
  from assms consider
    (piece) sq where "sq \<in> set all_squares"
      "m \<in> set (case piece_at (board p) sq of
                  None \<Rightarrow> []
                | Some (k, col) \<Rightarrow>
                    if col \<noteq> side_to_move p then []
                    else if k = Pawn then pawn_moves p (side_to_move p) sq
                    else map (plain sq) (targets (board p) k (side_to_move p) sq))"
    | (castle) "m \<in> set (castling_moves p (side_to_move p))"
    by (auto simp: pseudo_legal_def Let_def)
  then show ?thesis
  proof cases
    case piece
    show ?thesis
    proof (cases "piece_at (board p) sq")
      case None
      with piece(2) show ?thesis by simp
    next
      case (Some kc)
      obtain k col where kc: "kc = (k, col)" by (cases kc)
      from piece(2) Some kc have col: "col = side_to_move p"
        by (cases "col = side_to_move p") simp_all
      from piece(2) Some kc col have "origin m = sq"
        by (cases "k = Pawn") (auto simp: plain_def dest: pawn_moves_origin)
      with Some kc col show ?thesis by simp
    qed
  next
    case castle
    then show ?thesis by (auto dest: castling_moves_origin)
  qed
qed

lemma apply_move_turn:
  assumes "piece_at (board p) (origin m) = Some (k, who)"
  shows "side_to_move (apply_move p m) = opponent who"
  using assms by (simp add: apply_move_def Let_def)

lemma legal_move_passes_turn:
  assumes "m \<in> set (legal_moves p)"
  shows "side_to_move (apply_move p m) = opponent (side_to_move p)"
proof -
  from assms have "m \<in> set (pseudo_legal p)" by (simp add: legal_moves_def)
  from pseudo_legal_origin [OF this] obtain k
    where "piece_at (board p) (origin m) = Some (k, side_to_move p)" by blast
  then show ?thesis by (rule apply_move_turn)
qed

lemma start_quiet: "\<not> in_check (board start) Black"
  by code_simp

lemma reachable_mover_safe:
  "reachable p \<Longrightarrow> \<not> in_check (board p) (opponent (side_to_move p))"
proof (induction rule: reachable.induct)
  case at_start
  show ?case using start_quiet by (simp add: start_def)
next
  case (after_move p m)
  from after_move.hyps(2) have "\<not> in_check (board (apply_move p m)) (side_to_move p)"
    by (simp add: legal_moves_def)
  moreover have "opponent (opponent (side_to_move p)) = side_to_move p"
    by (cases "side_to_move p") simp_all
  ultimately show ?case
    by (simp add: legal_move_passes_turn [OF after_move.hyps(2)])
qed

text \<open>
  C5, on the model of the specification's move generator. For every position reachable
  via legal play from the standard starting position, no move of \<open>legal_moves\<close> leaves
  the moving side's own king in check in the position its application gives; the turn
  has then passed to the opponent.
\<close>

theorem legal_moves_keep_own_king_safe:
  assumes "reachable p" and "m \<in> set (legal_moves p)"
  shows "\<not> in_check (board (apply_move p m)) (side_to_move p) \<and>
         side_to_move (apply_move p m) = opponent (side_to_move p)"
  using assms(2) legal_move_passes_turn [OF assms(2)] by (simp add: legal_moves_def)

theorem legal_moves_keep_own_king_safe_witness:
  "reachable start \<and> plain (6, 4) (4, 4) \<in> set (legal_moves start) \<and>
   \<not> in_check (board (apply_move start (plain (6, 4) (4, 4)))) (side_to_move start)"
proof -
  have r: "reachable start"
    by (rule reachable.at_start)
  have m: "plain (6, 4) (4, 4) \<in> set (legal_moves start)"
    by code_simp
  from r m legal_moves_keep_own_king_safe [OF r m, THEN conjunct1] show ?thesis
    by (intro conjI)
qed

section \<open>The engine's model: the evaluation breakdown\<close>

lemma total_as_sum:
  "fst (evaluate registry enabled p) =
     (\<Sum>(name, score) \<leftarrow> registry. if enabled name then score p else 0)"
  by (induction registry) (auto simp: evaluate_def breakdown_def)

lemma breakdown_entry:
  "distinct (map fst registry) \<Longrightarrow>
   map_of (breakdown registry enabled p) n =
     (if enabled n then map_option (\<lambda>score. score p) (map_of registry n) else None)"
proof (induction registry)
  case Nil
  then show ?case by (simp add: breakdown_def)
next
  case (Cons a registry)
  then show ?case
    by (cases a) (auto simp: breakdown_def map_of_eq_None_iff image_iff)
qed

lemma total_without:
  "distinct (map fst registry) \<Longrightarrow> enabled n \<Longrightarrow> map_of registry n = Some score \<Longrightarrow>
   fst (evaluate registry (enabled(n := False)) p) = fst (evaluate registry enabled p) - score p"
proof (induction registry)
  case Nil
  then show ?case by simp
next
  case (Cons a registry)
  obtain k f where a: "a = (k, f)" by (cases a)
  show ?case
  proof (cases "k = n")
    case True
    with Cons.prems a have f: "f = score" and notin: "n \<notin> fst ` set registry" by auto
    have "filter (\<lambda>(name, score). (enabled(n := False)) name) registry =
          filter (\<lambda>(name, score). enabled name) registry"
      using notin by (intro filter_cong) (auto simp: image_iff)
    with True a f Cons.prems(2) show ?thesis
      by (simp add: evaluate_def breakdown_def)
  next
    case False
    with Cons.prems a have "map_of registry n = Some score" "distinct (map fst registry)"
      by auto
    from Cons.IH [OF this(2) Cons.prems(2) this(1)] False a show ?thesis
      by (simp add: evaluate_def breakdown_def)
  qed
qed


text \<open>
  C6, on the model of the specification's evaluation engine, for a registry whose module
  names are distinct. The total \<open>evaluate\<close> returns is the sum over the registry of the
  contributions of the modules enabled at that time. The breakdown's entry for a name is
  the module's contribution when the module is enabled, and there is none when it is
  disabled (no zero stands in for it). Disabling an enabled module succeeds, removes its
  entry, and changes the total by exactly the contribution the module had.
\<close>

theorem evaluation_total_is_sum_of_enabled:
  assumes "distinct (map fst registry)"
  shows "fst (evaluate registry enabled p) =
           (\<Sum>(name, score) \<leftarrow> registry. if enabled name then score p else 0) \<and>
         map_of (snd (evaluate registry enabled p)) n =
           (if enabled n then map_option (\<lambda>score. score p) (map_of registry n) else None) \<and>
         (enabled n \<and> map_of registry n = Some score \<longrightarrow>
            set_module registry enabled n False = Inr (enabled(n := False)) \<and>
            map_of (snd (evaluate registry (enabled(n := False)) p)) n = None \<and>
            fst (evaluate registry (enabled(n := False)) p) =
              fst (evaluate registry enabled p) - score p)"
proof (intro conjI impI)
  show "fst (evaluate registry enabled p) =
           (\<Sum>(name, score) \<leftarrow> registry. if enabled name then score p else 0)"
    by (rule total_as_sum)
  show "map_of (snd (evaluate registry enabled p)) n =
           (if enabled n then map_option (\<lambda>score. score p) (map_of registry n) else None)"
    using breakdown_entry [OF assms] by (simp add: evaluate_def)
next
  assume a: "enabled n \<and> map_of registry n = Some score"
  then have "(n, score) \<in> set registry"
    by (simp add: map_of_SomeD)
  then have "n \<in> set (map fst registry)"
    by (force simp: image_iff)
  then show "set_module registry enabled n False = Inr (enabled(n := False))"
    by (simp add: set_module_def)
  show "map_of (snd (evaluate registry (enabled(n := False)) p)) n = None"
    using breakdown_entry [OF assms, of "enabled(n := False)" p n] by (simp add: evaluate_def)
  from a show "fst (evaluate registry (enabled(n := False)) p) =
      fst (evaluate registry enabled p) - score p"
    using total_without [OF assms] by blast
qed


theorem evaluation_total_is_sum_of_enabled_witness:
  "distinct (map fst sample_registry) \<and>
   evaluate sample_registry (\<lambda>n. True) 5 = (7, [(''material'', 5), (''mobility'', 2)]) \<and>
   set_module sample_registry (\<lambda>n. True) ''material'' False =
     Inr ((\<lambda>n. True)(''material'' := False)) \<and>
   evaluate sample_registry ((\<lambda>n. True)(''material'' := False)) 5 = (2, [(''mobility'', 2)]) \<and>
   fst (evaluate sample_registry ((\<lambda>n. True)(''material'' := False)) 5) =
     fst (evaluate sample_registry (\<lambda>n. True) 5) - 5 \<and>
   map_of (snd (evaluate sample_registry ((\<lambda>n. True)(''material'' := False)) 5)) ''material'' =
     None"
proof -
  have d: "distinct (map fst sample_registry)"
    by (simp add: sample_registry_def)
  have k: "(\<lambda>n. True) ''material'' \<and>
      map_of sample_registry ''material'' = Some (\<lambda>p. p)"
    by (simp add: sample_registry_def)
  note T = evaluation_total_is_sum_of_enabled [OF d, of "\<lambda>n. True" 5 "''material''" "\<lambda>p. p",
      THEN conjunct2, THEN conjunct2, THEN mp, OF k]
  have a: "evaluate sample_registry (\<lambda>n. True) 5 = (7, [(''material'', 5), (''mobility'', 2)])"
    by (simp add: evaluate_def breakdown_def sample_registry_def)
  have b: "evaluate sample_registry ((\<lambda>n. True)(''material'' := False)) 5 =
      (2, [(''mobility'', 2)])"
    by (simp add: evaluate_def breakdown_def sample_registry_def)
  from d a b T [THEN conjunct1] T [THEN conjunct2, THEN conjunct2] T [THEN conjunct2, THEN conjunct1]
  show ?thesis by (intro conjI)
qed

section \<open>The engine's model: auto-deepening\<close>






end
